theory Spec2Isabelle
  imports Main
begin

section \<open>Strings and paths of the Go standard library\<close>

text \<open>
  A Go string is a sequence of bytes, here a \<open>char list\<close>. The identifiers and file names
  of a protobuf schema are ASCII, and the case conversions below are the ASCII part of
  \<open>strings.ToUpper\<close> and \<open>strings.ToLower\<close>.
\<close>

definition lower_letters :: string where
  "lower_letters = ''abcdefghijklmnopqrstuvwxyz''"

definition upper_letters :: string where
  "upper_letters = ''ABCDEFGHIJKLMNOPQRSTUVWXYZ''"

definition upper_char :: "char \<Rightarrow> char" where
  "upper_char c = (case map_of (zip lower_letters upper_letters) c of Some u \<Rightarrow> u | None \<Rightarrow> c)"

definition lower_char :: "char \<Rightarrow> char" where
  "lower_char c = (case map_of (zip upper_letters lower_letters) c of Some l \<Rightarrow> l | None \<Rightarrow> c)"

definition ToUpper :: "string \<Rightarrow> string" where
  "ToUpper s = map upper_char s"

definition ToLower :: "string \<Rightarrow> string" where
  "ToLower s = map lower_char s"

definition HasPrefix :: "string \<Rightarrow> string \<Rightarrow> bool" where
  "HasPrefix s p = (take (length p) s = p)"

definition HasSuffix :: "string \<Rightarrow> string \<Rightarrow> bool" where
  "HasSuffix s p = (length p \<le> length s \<and> drop (length s - length p) s = p)"

definition TrimPrefix :: "string \<Rightarrow> string \<Rightarrow> string" where
  "TrimPrefix s p = (if HasPrefix s p then drop (length p) s else s)"

text \<open>\<open>strings.Split(s, sep)\<close> for a separator of one character, which every call has.\<close>

fun Split :: "string \<Rightarrow> char \<Rightarrow> string list" where
  "Split [] sep = [[]]"
| "Split (c # cs) sep =
     (if c = sep then [] # Split cs sep
      else (case Split cs sep of [] \<Rightarrow> [[c]] | p # ps \<Rightarrow> (c # p) # ps))"

text \<open>\<open>strings.Join(parts, sep)\<close>.\<close>

fun Join :: "string list \<Rightarrow> string \<Rightarrow> string" where
  "Join [] sep = []"
| "Join [p] sep = p"
| "Join (p # q # ps) sep = p @ sep @ Join (q # ps) sep"

text \<open>
  \<open>strings.Replace(s, old, new, -1)\<close>: every non-overlapping occurrence of \<open>old\<close>, from
  the left. An empty \<open>old\<close> matches before every character and at the end.
\<close>

function replace_all :: "string \<Rightarrow> string \<Rightarrow> string \<Rightarrow> string" where
  "replace_all [] old new = []"
| "replace_all (c # cs) old new =
     (if old \<noteq> [] \<and> HasPrefix (c # cs) old
      then new @ replace_all (drop (length old) (c # cs)) old new
      else c # replace_all cs old new)"
  by pat_completeness auto
termination
  by (relation "measure (\<lambda>(s, old, new). length s)") auto

definition Replace :: "string \<Rightarrow> string \<Rightarrow> string \<Rightarrow> string" where
  "Replace s old new =
     (if old = [] then new @ concat (map (\<lambda>c. c # new) s) else replace_all s old new)"

text \<open>
  \<open>path.Clean\<close>, by the rules of its documentation: empty and \<open>.\<close> elements go, a \<open>..\<close>
  element takes the element before it along unless that is a \<open>..\<close> too, a \<open>..\<close> at the
  start of a rooted path goes, and the empty result is \<open>.\<close>. \<open>out\<close> is the elements kept
  so far.
\<close>

fun clean_elems :: "bool \<Rightarrow> string list \<Rightarrow> string list \<Rightarrow> string list" where
  "clean_elems rooted [] out = out"
| "clean_elems rooted (e # es) out =
     (if e = [] \<or> e = ''.'' then clean_elems rooted es out
      else if e = ''..'' then
        (if out \<noteq> [] \<and> last out \<noteq> ''..'' then clean_elems rooted es (butlast out)
         else if rooted then clean_elems rooted es out
         else clean_elems rooted es (out @ [''..'']))
      else clean_elems rooted es (out @ [e]))"

definition path_Clean :: "string \<Rightarrow> string" where
  "path_Clean p =
     (if p = [] then ''.''
      else
        let rooted = (hd p = CHR ''/'');
            out = clean_elems rooted (Split p CHR ''/'') []
        in if rooted then ''/'' @ Join out ''/''
           else if out = [] then ''.''
           else Join out ''/'')"

text \<open>\<open>path.Dir\<close>: the path up to and including its last slash, cleaned.\<close>

definition path_Dir :: "string \<Rightarrow> string" where
  "path_Dir p = path_Clean (rev (dropWhile (\<lambda>c. c \<noteq> CHR ''/'') (rev p)))"

text \<open>\<open>path.Join\<close> of two elements: empty elements are left out, the rest is cleaned.\<close>

definition path_Join :: "string \<Rightarrow> string \<Rightarrow> string" where
  "path_Join a b =
     (if a = [] \<and> b = [] then []
      else if a = [] then path_Clean b
      else path_Clean (a @ ''/'' @ b))"

section \<open>Errors\<close>

text \<open>
  The ways the generator stops: \<open>log.Fatalf\<close> prints its message and exits, a nil pointer
  dereference and a slice or index out of range are run-time panics, and a recursion
  deeper than the stack is a fatal stack overflow.
\<close>

datatype error =
    Fatal string
  | NilDereference
  | OutOfRange
  | StackOverflow

section \<open>The descriptors the generator reads\<close>

datatype FieldType =
    TYPE_DOUBLE | TYPE_FLOAT | TYPE_INT64 | TYPE_UINT64 | TYPE_INT32
  | TYPE_FIXED64 | TYPE_FIXED32 | TYPE_BOOL | TYPE_STRING | TYPE_GROUP
  | TYPE_MESSAGE | TYPE_BYTES | TYPE_UINT32 | TYPE_ENUM | TYPE_SFIXED32
  | TYPE_SFIXED64 | TYPE_SINT32 | TYPE_SINT64

datatype FieldLabel = LABEL_OPTIONAL | LABEL_REQUIRED | LABEL_REPEATED

text \<open>
  A field descriptor, by what its getters return: \<open>GetName\<close>, \<open>GetType\<close>, \<open>GetTypeName\<close>,
  and the \<open>Label\<close> pointer, which may be nil.
\<close>

record FieldDescriptorProto =
  fd_Name :: string
  fd_Type :: FieldType
  fd_TypeName :: string
  fd_Label :: "FieldLabel option"

section \<open>Type Mapper\<close>

definition isRepeated :: "FieldDescriptorProto \<Rightarrow> bool" where
  "isRepeated field = (fd_Label field \<noteq> None \<and> fd_Label field = Some LABEL_REPEATED)"

definition removePkg :: "string \<Rightarrow> string" where
  "removePkg s = (let p = Split s CHR ''.'' in last p)"

text \<open>
  \<open>protoToDartType\<close> returns (dartType, internalType, jsonType). The switch sets the
  target type and the JSON type of the field's kind; a kind without a case keeps the
  defaults \<open>String\<close> and \<open>string\<close>. A repeated field is wrapped afterwards.
\<close>

definition protoToDartType :: "FieldDescriptorProto \<Rightarrow> string \<times> string \<times> string" where
  "protoToDartType f =
     (let (dartType, jsonType) =
            (case fd_Type f of
               TYPE_DOUBLE \<Rightarrow> (''double'', ''number'')
             | TYPE_FIXED32 \<Rightarrow> (''int'', ''number'')
             | TYPE_FIXED64 \<Rightarrow> (''int'', ''number'')
             | TYPE_INT32 \<Rightarrow> (''int'', ''number'')
             | TYPE_INT64 \<Rightarrow> (''int'', ''number'')
             | TYPE_STRING \<Rightarrow> (''String'', ''string'')
             | TYPE_BOOL \<Rightarrow> (''bool'', ''boolean'')
             | TYPE_MESSAGE \<Rightarrow>
                 (let name = fd_TypeName f in
                  if name = ''.google.protobuf.Timestamp'' then (''DateTime'', ''string'')
                  else (removePkg name, removePkg name @ ''JSON''))
             | _ \<Rightarrow> (''String'', ''string''));
          internalType = dartType
      in if isRepeated f
         then (''List<'' @ dartType @ ''>'', internalType, jsonType @ ''[]'')
         else (dartType, internalType, jsonType))"

section \<open>Field Resolver\<close>

text \<open>
  \<open>camelCase\<close>: the loop runs over the parts with their index and writes each part back;
  \<open>p[0:1]\<close> of an empty part is a slice out of range.
\<close>

fun camelCase_range :: "nat \<Rightarrow> string list \<Rightarrow> string list \<Rightarrow> error + string list" where
  "camelCase_range i [] parts = Inr parts"
| "camelCase_range i (p # ps) parts =
     (if i = 0 then camelCase_range (Suc i) ps (parts[i := p])
      else if p = [] then Inl OutOfRange
      else camelCase_range (Suc i) ps (parts[i := ToUpper (take 1 p) @ ToLower (drop 1 p)]))"

definition camelCase :: "string \<Rightarrow> error + string" where
  "camelCase s =
     (let parts = Split s CHR ''_'' in
      case camelCase_range 0 parts parts of
        Inl e \<Rightarrow> Inl e
      | Inr parts' \<Rightarrow> Inr (Join parts' []))"

text \<open>
  The conversion as the specification words it: split on the underscore, lower-case the
  first segment, upper-case the initial letter of each remaining segment, concatenate.
\<close>

definition camelCase_spec :: "string \<Rightarrow> string" where
  "camelCase_spec s =
     (case Split s CHR ''_'' of
        [] \<Rightarrow> []
      | first # rest \<Rightarrow>
          concat (ToLower first # map (\<lambda>p. ToUpper (take 1 p) @ drop 1 p) rest))"

text \<open>
  A message descriptor: its name, its fields, its nested types, and whether its options
  are present with \<open>map_entry\<close> set.
\<close>

datatype DescriptorProto =
  DescriptorProto (dp_Name: string) (dp_Field: "FieldDescriptorProto list")
    (dp_NestedType: "DescriptorProto list") (dp_MapEntry: bool)

text \<open>
  \<open>GetMapFields\<close> of the descriptor library: (nil, nil) unless the message is a map
  entry, else its first two fields, an index out of range when there are fewer.
\<close>

definition GetMapFields ::
  "DescriptorProto \<Rightarrow> error + (FieldDescriptorProto option \<times> FieldDescriptorProto option)" where
  "GetMapFields msg =
     (if \<not> dp_MapEntry msg then Inr (None, None)
      else (case dp_Field msg of
              k # v # _ \<Rightarrow> Inr (Some k, Some v)
            | _ \<Rightarrow> Inl OutOfRange))"

datatype ModelField =
  ModelField (f_Name: string) (f_Type: string) (InternalType: string) (JSONName: string)
    (JSONType: string) (IsMessage: bool) (IsRepeated: bool) (IsMap: bool)
    (MapKeyField: "ModelField option") (MapValueField: "ModelField option")

text \<open>
  \<open>newField\<close>; the file descriptor and the generator it is passed are not used by it.
  \<open>newField_nested\<close> is its loop over the nested types of the owning message, updating
  the field being built.
\<close>

function newField :: "FieldDescriptorProto \<Rightarrow> DescriptorProto \<Rightarrow> error + ModelField"
  and newField_nested ::
    "FieldDescriptorProto \<Rightarrow> DescriptorProto list \<Rightarrow> ModelField \<Rightarrow> error + ModelField"
where
  "newField f m =
     (let (dartType, internalType, jsonType) = protoToDartType f;
          jsonName = fd_Name f
      in
      case camelCase jsonName of
        Inl e \<Rightarrow> Inl e
      | Inr name \<Rightarrow>
          (case newField_nested f (dp_NestedType m)
                  (ModelField name dartType internalType jsonName jsonType
                     False False False None None) of
             Inl e \<Rightarrow> Inl e
           | Inr field \<Rightarrow>
               Inr (ModelField (f_Name field) (f_Type field) (InternalType field)
                      (JSONName field) (JSONType field) (fd_Type f = TYPE_MESSAGE)
                      (isRepeated f) (IsMap field) (MapKeyField field)
                      (MapValueField field))))"
| "newField_nested f [] field = Inr field"
| "newField_nested f (nested # rest) field =
     (if \<not> HasSuffix (fd_TypeName f) (dp_Name nested) then newField_nested f rest field
      else
        case GetMapFields nested of
          Inl e \<Rightarrow> Inl e
        | Inr (Some keyField, Some valueField) \<Rightarrow>
            (case newField keyField nested of
               Inl e \<Rightarrow> Inl e
             | Inr mapKeyField \<Rightarrow>
                 (case newField valueField nested of
                    Inl e \<Rightarrow> Inl e
                  | Inr mapValueField \<Rightarrow>
                      newField_nested f rest
                        (ModelField (f_Name field)
                           (''Map<'' @ f_Type mapKeyField @ '','' @ f_Type mapValueField @ ''>'')
                           (InternalType field) (JSONName field) (JSONType field)
                           (IsMessage field) (IsRepeated field) True
                           (Some mapKeyField) (Some mapValueField))))
        | Inr _ \<Rightarrow> newField_nested f rest field)"
  by pat_completeness auto
termination
proof (relation "measure (\<lambda>x. case x of
                    Inl (f, m) \<Rightarrow> size m
                  | Inr (f, ms, field) \<Rightarrow> size_list size ms)")
  show "wf (measure (\<lambda>x. case x of
                    Inl (f, m) \<Rightarrow> size m
                  | Inr (f :: FieldDescriptorProto, ms, field :: ModelField) \<Rightarrow>
                      size_list size ms))"
    by simp
next
  fix f :: FieldDescriptorProto and m :: DescriptorProto
    and x :: "string \<times> string \<times> string" and field :: ModelField
  show "(Inr (f, dp_NestedType m, field), Inl (f, m))
        \<in> measure (\<lambda>x. case x of
                    Inl (f, m) \<Rightarrow> size m
                  | Inr (f, ms, field) \<Rightarrow> size_list size ms)"
    by (cases m) simp
qed auto

section \<open>The intermediate representation\<close>

text \<open>
  The structs of the generator. A field name that several structs share (\<open>Name\<close>,
  \<open>Type\<close>, \<open>Path\<close>) carries a prefix for its struct: \<open>m_Name\<close> of a Model, \<open>f_Name\<close> and
  \<open>f_Type\<close> of a ModelField, \<open>s_Name\<close> of a Service, \<open>sm_Name\<close> and \<open>sm_Path\<close> of a
  ServiceMethod.
\<close>

record Model =
  m_Name :: string
  Primitive :: bool
  Fields :: "ModelField list"
  CanMarshal :: bool
  CanUnmarshal :: bool

record ServiceMethod =
  sm_Name :: string
  sm_Path :: string
  InputArg :: string
  InputType :: string
  OutputType :: string

record Service =
  s_Name :: string
  Package :: string
  Methods :: "ServiceMethod list"

datatype Import = Import (Path: string)

text \<open>
  The context. \<open>CreateClientAPI\<close>, the only caller of \<open>AddModel\<close>, adds a newly allocated
  Model each time, so \<open>ctx.Models\<close> holds every Model object once: \<open>Models\<close> is the
  objects in that order, and a \<open>*Model\<close> is the position of its object in \<open>Models\<close>
  (\<open>None\<close> for nil where a pointer may be nil). \<open>modelLookup\<close> maps a name to such a pointer,
  so a flag set through the lookup table is set on the object \<open>ctx.Models\<close> holds.
\<close>

record APIContext =
  Models :: "Model list"
  Services :: "Service list"
  Imports :: "Import list"
  modelLookup :: "string \<rightharpoonup> nat"

definition NewAPIContext :: APIContext where
  "NewAPIContext = \<lparr>Models = [], Services = [], Imports = [], modelLookup = Map.empty\<rparr>"

text \<open>\<open>AddModel\<close> of a newly allocated Model with the given contents.\<close>

definition AddModel :: "APIContext \<Rightarrow> Model \<Rightarrow> APIContext" where
  "AddModel ctx m =
     ctx\<lparr>Models := Models ctx @ [m],
         modelLookup := (modelLookup ctx)(m_Name m \<mapsto> length (Models ctx))\<rparr>"

section \<open>Import Resolver\<close>

text \<open>
  A file descriptor: the \<open>Name\<close> pointer, which may be nil, and what \<open>GetPackage\<close>,
  \<open>GetMessageType\<close>, \<open>GetService\<close> and the \<open>Dependency\<close> field give.
\<close>

record MethodDescriptorProto =
  md_Name :: string
  md_InputType :: string
  md_OutputType :: string

record ServiceDescriptorProto =
  sd_Name :: string
  sd_Method :: "MethodDescriptorProto list"

record FileDescriptorProto =
  file_Name :: "string option"
  file_Package :: string
  file_MessageType :: "DescriptorProto list"
  file_Service :: "ServiceDescriptorProto list"
  file_Dependency :: "string list"

definition GetName :: "FileDescriptorProto \<Rightarrow> string" where
  "GetName d = (case file_Name d of None \<Rightarrow> [] | Some n \<Rightarrow> n)"

text \<open>\<open>os.PathSeparator\<close>, on the systems where it is the slash.\<close>

definition PathSeparator :: char where
  "PathSeparator = CHR ''/''"

text \<open>
  The loop of \<open>ApplyImports\<close> over the components of the source directory: a component
  that is a prefix of what is left of the import path is cut off it and counted.
\<close>

fun ApplyImports_trim :: "string \<Rightarrow> int \<Rightarrow> string list \<Rightarrow> string \<times> int" where
  "ApplyImports_trim importPath distanceFromRoot [] = (importPath, distanceFromRoot)"
| "ApplyImports_trim importPath distanceFromRoot (pathComponent # rest) =
     (if HasPrefix importPath pathComponent
      then ApplyImports_trim (TrimPrefix importPath pathComponent) (distanceFromRoot - 1) rest
      else ApplyImports_trim importPath distanceFromRoot rest)"

text \<open>The loop that joins \<open>..\<close> in front, \<open>n\<close> times.\<close>

fun ApplyImports_up :: "nat \<Rightarrow> string \<Rightarrow> string" where
  "ApplyImports_up 0 fullPath = fullPath"
| "ApplyImports_up (Suc n) fullPath = ApplyImports_up n (path_Join ''..'' fullPath)"

text \<open>
  The loop of \<open>ApplyImports\<close> over the dependencies. \<open>dartFilename\<close> is a function of the
  package whose source is not part of the files at hand; it is a parameter here.
  \<open>*d.Name\<close> is a nil dereference when the name is not set.
\<close>

fun ApplyImports_deps ::
  "(string \<Rightarrow> string) \<Rightarrow> FileDescriptorProto \<Rightarrow> string list \<Rightarrow> Import list
   \<Rightarrow> error + Import list" where
  "ApplyImports_deps dartFilename d [] deps = Inr deps"
| "ApplyImports_deps dartFilename d (dep # rest) deps =
     (if dep = ''google/protobuf/timestamp.proto''
      then ApplyImports_deps dartFilename d rest deps
      else
        case file_Name d of
          None \<Rightarrow> Inl NilDereference
        | Some name \<Rightarrow>
            (let importPath = path_Dir dep;
                 sourceDir = path_Dir name;
                 sourceComponents = Split sourceDir PathSeparator;
                 distanceFromRoot = int (length sourceComponents);
                 (importPath', distanceFromRoot') =
                    ApplyImports_trim importPath distanceFromRoot sourceComponents;
                 fileName = dartFilename dep;
                 fullPath = path_Join importPath' fileName;
                 fullPath' =
                   (if distanceFromRoot' > 0
                    then ApplyImports_up (nat distanceFromRoot') fullPath
                    else fullPath)
             in ApplyImports_deps dartFilename d rest (deps @ [Import fullPath'])))"

definition ApplyImports ::
  "(string \<Rightarrow> string) \<Rightarrow> APIContext \<Rightarrow> FileDescriptorProto \<Rightarrow> error + APIContext" where
  "ApplyImports dartFilename ctx d =
     (let deps = [];
          deps = (if length (Services ctx) > 0
                  then deps @ [Import ''dart:async''] @ [Import ''package:http/http.dart'']
                  else deps);
          deps = deps @ [Import ''dart:convert''];
          deps = deps @ [Import (Replace (GetName d) ''.proto'' [] @ ''.pb.dart'')]
      in case ApplyImports_deps dartFilename d (file_Dependency d) deps of
           Inl e \<Rightarrow> Inl e
         | Inr deps' \<Rightarrow> Inr (ctx\<lparr>Imports := deps'\<rparr>))"

section \<open>Marshal closure\<close>

text \<open>The message of the two \<open>log.Fatalf\<close> calls.\<close>

definition could_not_find :: "string \<Rightarrow> string \<Rightarrow> string" where
  "could_not_find ty name = ''could not find model of type '' @ ty @ '' for field '' @ name"

text \<open>
  \<open>enableMarshal\<close> and \<open>enableUnmarshal\<close> call themselves from inside their loop over the
  fields, with nothing that ends the recursion but the fields running out. The first
  argument is the call depth the stack has room for; a call with none left is the stack
  overflow. A pointer outside \<open>Models\<close> does not arise and is treated like nil.
\<close>

fun enableMarshal :: "nat \<Rightarrow> APIContext \<Rightarrow> nat option \<Rightarrow> error + APIContext"
  and enableMarshal_fields ::
    "nat \<Rightarrow> APIContext \<Rightarrow> ModelField list \<Rightarrow> error + APIContext"
where
  "enableMarshal 0 ctx m = Inl StackOverflow"
| "enableMarshal (Suc depth) ctx None = Inl NilDereference"
| "enableMarshal (Suc depth) ctx (Some p) =
     (if \<not> p < length (Models ctx) then Inl NilDereference
      else
        let ctx' = ctx\<lparr>Models := (Models ctx)[p := (Models ctx ! p)\<lparr>CanMarshal := True\<rparr>]\<rparr>
        in enableMarshal_fields depth ctx' (Fields (Models ctx' ! p)))"
| "enableMarshal_fields depth ctx [] = Inr ctx"
| "enableMarshal_fields depth ctx (f # fs) =
     (if \<not> IsMessage f \<or> f_Type f = ''DateTime'' then enableMarshal_fields depth ctx fs
      else
        case modelLookup ctx (f_Type f) of
          None \<Rightarrow> Inl (Fatal (could_not_find (f_Type f) (f_Name f)))
        | Some mm \<Rightarrow>
            (case enableMarshal depth ctx (Some mm) of
               Inl e \<Rightarrow> Inl e
             | Inr ctx' \<Rightarrow> enableMarshal_fields depth ctx' fs))"

fun enableUnmarshal :: "nat \<Rightarrow> APIContext \<Rightarrow> nat option \<Rightarrow> error + APIContext"
  and enableUnmarshal_fields ::
    "nat \<Rightarrow> APIContext \<Rightarrow> ModelField list \<Rightarrow> error + APIContext"
where
  "enableUnmarshal 0 ctx m = Inl StackOverflow"
| "enableUnmarshal (Suc depth) ctx None = Inl NilDereference"
| "enableUnmarshal (Suc depth) ctx (Some p) =
     (if \<not> p < length (Models ctx) then Inl NilDereference
      else
        let ctx' = ctx\<lparr>Models := (Models ctx)[p := (Models ctx ! p)\<lparr>CanUnmarshal := True\<rparr>]\<rparr>
        in enableUnmarshal_fields depth ctx' (Fields (Models ctx' ! p)))"
| "enableUnmarshal_fields depth ctx [] = Inr ctx"
| "enableUnmarshal_fields depth ctx (f # fs) =
     (if \<not> IsMessage f \<or> f_Type f = ''DateTime'' then enableUnmarshal_fields depth ctx fs
      else
        case modelLookup ctx (f_Type f) of
          None \<Rightarrow> Inl (Fatal (could_not_find (f_Type f) (f_Name f)))
        | Some mm \<Rightarrow>
            (case enableUnmarshal depth ctx (Some mm) of
               Inl e \<Rightarrow> Inl e
             | Inr ctx' \<Rightarrow> enableUnmarshal_fields depth ctx' fs))"

text \<open>
  \<open>ApplyMarshalFlags\<close>: the inner loop over the fields of the model at \<open>p\<close>, whose flags
  are read anew for every field, and the outer loop over \<open>ctx.Models\<close>. The encode branch
  passes the result of the lookup on without its \<open>ok\<close>: nil when the name is missing.
\<close>

fun ApplyMarshalFlags_fields ::
  "nat \<Rightarrow> APIContext \<Rightarrow> nat \<Rightarrow> ModelField list \<Rightarrow> error + APIContext" where
  "ApplyMarshalFlags_fields depth ctx p [] = Inr ctx"
| "ApplyMarshalFlags_fields depth ctx p (f # fs) =
     (if \<not> IsMessage f \<or> f_Type f = ''DateTime''
      then ApplyMarshalFlags_fields depth ctx p fs
      else
        let baseType =
              (if IsRepeated f then Replace (Replace (f_Type f) ''List<'' []) ''>'' []
               else f_Type f)
        in
        case (if CanMarshal (Models ctx ! p)
              then enableMarshal depth ctx (modelLookup ctx baseType)
              else Inr ctx) of
          Inl e \<Rightarrow> Inl e
        | Inr ctx1 \<Rightarrow>
            (case (if CanUnmarshal (Models ctx1 ! p)
                   then (case modelLookup ctx1 baseType of
                           None \<Rightarrow> Inl (Fatal (could_not_find baseType (f_Name f)))
                         | Some m \<Rightarrow> enableUnmarshal depth ctx1 (Some m))
                   else Inr ctx1) of
               Inl e \<Rightarrow> Inl e
             | Inr ctx2 \<Rightarrow> ApplyMarshalFlags_fields depth ctx2 p fs))"

fun ApplyMarshalFlags_models ::
  "nat \<Rightarrow> APIContext \<Rightarrow> nat list \<Rightarrow> error + APIContext" where
  "ApplyMarshalFlags_models depth ctx [] = Inr ctx"
| "ApplyMarshalFlags_models depth ctx (p # ps) =
     (case ApplyMarshalFlags_fields depth ctx p (Fields (Models ctx ! p)) of
        Inl e \<Rightarrow> Inl e
      | Inr ctx' \<Rightarrow> ApplyMarshalFlags_models depth ctx' ps)"

definition ApplyMarshalFlags :: "nat \<Rightarrow> APIContext \<Rightarrow> error + APIContext" where
  "ApplyMarshalFlags depth ctx = ApplyMarshalFlags_models depth ctx [0 ..< length (Models ctx)]"

section \<open>Context Aggregator\<close>

text \<open>
  \<open>CreateClientAPI\<close> up to the context it hands to the template. Its loops, in the order
  of the source: the fields of a message, the messages, the methods of a service, the
  services, and the three nested loops that mark the models of the RPC surface.
\<close>

fun CreateClientAPI_fields ::
  "FieldDescriptorProto list \<Rightarrow> DescriptorProto \<Rightarrow> ModelField list
   \<Rightarrow> error + ModelField list" where
  "CreateClientAPI_fields [] m model_Fields = Inr model_Fields"
| "CreateClientAPI_fields (f # fs) m model_Fields =
     (case newField f m of
        Inl e \<Rightarrow> Inl e
      | Inr field \<Rightarrow> CreateClientAPI_fields fs m (model_Fields @ [field]))"

fun CreateClientAPI_messages ::
  "DescriptorProto list \<Rightarrow> APIContext \<Rightarrow> error + APIContext" where
  "CreateClientAPI_messages [] ctx = Inr ctx"
| "CreateClientAPI_messages (m # ms) ctx =
     (case CreateClientAPI_fields (dp_Field m) m [] of
        Inl e \<Rightarrow> Inl e
      | Inr model_Fields \<Rightarrow>
          CreateClientAPI_messages ms
            (AddModel ctx \<lparr>m_Name = dp_Name m, Primitive = False, Fields = model_Fields,
                            CanMarshal = False, CanUnmarshal = False\<rparr>))"

fun CreateClientAPI_methods ::
  "MethodDescriptorProto list \<Rightarrow> ServiceMethod list \<Rightarrow> error + ServiceMethod list" where
  "CreateClientAPI_methods [] methods = Inr methods"
| "CreateClientAPI_methods (m # ms) methods =
     (let methodPath = md_Name m in
      if methodPath = [] then Inl OutOfRange
      else
        let methodName = ToLower (take 1 methodPath) @ drop 1 methodPath;
            in' = removePkg (md_InputType m)
        in if in' = [] then Inl OutOfRange
           else
             let arg = ToLower (take 1 in') @ drop 1 in';
                 method = \<lparr>sm_Name = methodName, sm_Path = methodPath, InputArg = arg,
                           InputType = in', OutputType = removePkg (md_OutputType m)\<rparr>
             in CreateClientAPI_methods ms (methods @ [method]))"

fun CreateClientAPI_services ::
  "string \<Rightarrow> ServiceDescriptorProto list \<Rightarrow> APIContext \<Rightarrow> error + APIContext" where
  "CreateClientAPI_services pkg [] ctx = Inr ctx"
| "CreateClientAPI_services pkg (s # ss) ctx =
     (case CreateClientAPI_methods (sd_Method s) [] of
        Inl e \<Rightarrow> Inl e
      | Inr methods \<Rightarrow>
          CreateClientAPI_services pkg ss
            (ctx\<lparr>Services := Services ctx @
                    [\<lparr>s_Name = sd_Name s, Package = pkg, Methods = methods\<rparr>]\<rparr>))"

fun mark_methods :: "Model \<Rightarrow> ServiceMethod list \<Rightarrow> Model" where
  "mark_methods m [] = m"
| "mark_methods m (sm # sms) =
     (let m1 = (if m_Name m = InputType sm then m\<lparr>CanMarshal := True\<rparr> else m);
          m2 = (if m_Name m1 = OutputType sm then m1\<lparr>CanUnmarshal := True\<rparr> else m1)
      in mark_methods m2 sms)"

fun mark_services :: "Model \<Rightarrow> Service list \<Rightarrow> Model" where
  "mark_services m [] = m"
| "mark_services m (s # ss) = mark_services (mark_methods m (Methods s)) ss"

definition mark_models :: "APIContext \<Rightarrow> APIContext" where
  "mark_models ctx = ctx\<lparr>Models := map (\<lambda>m. mark_services m (Services ctx)) (Models ctx)\<rparr>"

text \<open>The call of \<open>ApplyMarshalFlags\<close> after \<open>ApplyImports\<close> is commented out in the source.\<close>

definition CreateClientAPI ::
  "(string \<Rightarrow> string) \<Rightarrow> FileDescriptorProto \<Rightarrow> error + APIContext" where
  "CreateClientAPI dartFilename d =
     (let ctx = NewAPIContext;
          pkg = file_Package d
      in case CreateClientAPI_messages (file_MessageType d) ctx of
           Inl e \<Rightarrow> Inl e
         | Inr ctx1 \<Rightarrow>
             (case CreateClientAPI_services pkg (file_Service d) ctx1 of
                Inl e \<Rightarrow> Inl e
              | Inr ctx2 \<Rightarrow>
                  (let ctx3 = mark_models ctx2;
                       ctx4 = AddModel ctx3
                                \<lparr>m_Name = ''Date'', Primitive = True, Fields = [],
                                 CanMarshal = False, CanUnmarshal = False\<rparr>
                   in ApplyImports dartFilename ctx4 d)))"

section \<open>Schemas used as examples\<close>

definition uint32_field :: FieldDescriptorProto where
  "uint32_field =
     \<lparr>fd_Name = ''count'', fd_Type = TYPE_UINT32, fd_TypeName = [],
      fd_Label = Some LABEL_OPTIONAL\<rparr>"

definition repeated_int32_field :: FieldDescriptorProto where
  "repeated_int32_field =
     \<lparr>fd_Name = ''sizes'', fd_Type = TYPE_INT32, fd_TypeName = [],
      fd_Label = Some LABEL_REPEATED\<rparr>"

text \<open>A message \<open>Item\<close> with a field \<open>map<string, int32> tags\<close>, as protoc describes it.\<close>

definition tags_entry :: DescriptorProto where
  "tags_entry =
     DescriptorProto ''TagsEntry''
       [\<lparr>fd_Name = ''key'', fd_Type = TYPE_STRING, fd_TypeName = [],
         fd_Label = Some LABEL_OPTIONAL\<rparr>,
        \<lparr>fd_Name = ''value'', fd_Type = TYPE_INT32, fd_TypeName = [],
         fd_Label = Some LABEL_OPTIONAL\<rparr>]
       [] True"

definition tags_field :: FieldDescriptorProto where
  "tags_field =
     \<lparr>fd_Name = ''tags'', fd_Type = TYPE_MESSAGE, fd_TypeName = ''.shop.Item.TagsEntry'',
      fd_Label = Some LABEL_REPEATED\<rparr>"

definition item_message :: DescriptorProto where
  "item_message = DescriptorProto ''Item'' [tags_field] [tags_entry] False"

definition tags_model_field :: ModelField where
  "tags_model_field =
     ModelField ''tags'' ''Map<String,int>'' ''TagsEntry'' ''tags'' ''TagsEntryJSON[]''
       True True True
       (Some (ModelField ''key'' ''String'' ''String'' ''key'' ''string''
                False False False None None))
       (Some (ModelField ''value'' ''int'' ''int'' ''value'' ''number''
                False False False None None))"

text \<open>
  What the invariant of a map field says of its sub-fields and its type: both sub-fields
  are there and the type is \<open>Map<K,V>\<close> of their types.
\<close>

definition map_shape :: "ModelField \<Rightarrow> bool" where
  "map_shape field =
     (case (MapKeyField field, MapValueField field) of
        (Some k, Some v) \<Rightarrow> f_Type field = ''Map<'' @ f_Type k @ '','' @ f_Type v @ ''>''
      | _ \<Rightarrow> False)"

text \<open>A file name of one path element: not empty, not \<open>.\<close> or \<open>..\<close>, without a slash.\<close>

definition plain_name :: "string \<Rightarrow> bool" where
  "plain_name n = (n \<noteq> [] \<and> n \<noteq> ''.'' \<and> n \<noteq> ''..'' \<and> CHR ''/'' \<notin> set n)"

text \<open>The schema file \<open>a/b/file.proto\<close> that imports \<open>a/c/dep.proto\<close>.\<close>

definition sibling_file :: FileDescriptorProto where
  "sibling_file =
     \<lparr>file_Name = Some ''a/b/file.proto'', file_Package = ''demo'', file_MessageType = [],
      file_Service = [], file_Dependency = [''a/c/dep.proto'']\<rparr>"

text \<open>
  A schema file in a directory whose name contains \<open>.proto\<close>, one in a directory whose
  name does not, and a context with a service.
\<close>

definition dotted_file :: FileDescriptorProto where
  "dotted_file =
     \<lparr>file_Name = Some ''my.protos/svc.proto'', file_Package = ''shop'',
      file_MessageType = [], file_Service = [], file_Dependency = []\<rparr>"

definition shop_file :: FileDescriptorProto where
  "shop_file =
     \<lparr>file_Name = Some ''shop/svc.proto'', file_Package = ''shop'',
      file_MessageType = [], file_Service = [], file_Dependency = []\<rparr>"

definition service_ctx :: APIContext where
  "service_ctx =
     NewAPIContext\<lparr>Services := [\<lparr>s_Name = ''Catalog'', Package = ''shop'', Methods = []\<rparr>]\<rparr>"

text \<open>The synthetic model that \<open>CreateClientAPI\<close> appends.\<close>

definition Date_model :: Model where
  "Date_model =
     \<lparr>m_Name = ''Date'', Primitive = True, Fields = [],
      CanMarshal = False, CanUnmarshal = False\<rparr>"

text \<open>
  The schema \<open>message Item { string id = 1; Tag tag = 2; }\<close>,
  \<open>message Tag { string label = 1; }\<close>,
  \<open>service Catalog { rpc GetItem(Item) returns (Item); }\<close>.
\<close>

definition catalog_file :: FileDescriptorProto where
  "catalog_file =
     \<lparr>file_Name = Some ''catalog.proto'', file_Package = ''shop'',
      file_MessageType =
        [DescriptorProto ''Item''
           [\<lparr>fd_Name = ''id'', fd_Type = TYPE_STRING, fd_TypeName = [],
             fd_Label = Some LABEL_OPTIONAL\<rparr>,
            \<lparr>fd_Name = ''tag'', fd_Type = TYPE_MESSAGE, fd_TypeName = ''.shop.Tag'',
             fd_Label = Some LABEL_OPTIONAL\<rparr>]
           [] False,
         DescriptorProto ''Tag''
           [\<lparr>fd_Name = ''label'', fd_Type = TYPE_STRING, fd_TypeName = [],
             fd_Label = Some LABEL_OPTIONAL\<rparr>]
           [] False],
      file_Service =
        [\<lparr>sd_Name = ''Catalog'',
          sd_Method = [\<lparr>md_Name = ''GetItem'', md_InputType = ''.shop.Item'',
                        md_OutputType = ''.shop.Item''\<rparr>]\<rparr>],
      file_Dependency = []\<rparr>"

text \<open>
  The schema \<open>message Date { int32 day = 1; }\<close>,
  \<open>service Clock { rpc Shift(Date) returns (Date); }\<close>.
\<close>

definition clock_file :: FileDescriptorProto where
  "clock_file =
     \<lparr>file_Name = Some ''clock.proto'', file_Package = ''time'',
      file_MessageType =
        [DescriptorProto ''Date''
           [\<lparr>fd_Name = ''day'', fd_Type = TYPE_INT32, fd_TypeName = [],
             fd_Label = Some LABEL_OPTIONAL\<rparr>]
           [] False],
      file_Service =
        [\<lparr>sd_Name = ''Clock'',
          sd_Method = [\<lparr>md_Name = ''Shift'', md_InputType = ''.time.Date'',
                        md_OutputType = ''.time.Date''\<rparr>]\<rparr>],
      file_Dependency = []\<rparr>"

text \<open>
  The schema \<open>message A { B b = 1; }\<close>, \<open>message B { A a = 1; }\<close>, \<open>message Ack {}\<close>,
  \<open>service Relay { rpc Send(A) returns (Ack); }\<close>, and the context built from it.
\<close>

definition cycle_file :: FileDescriptorProto where
  "cycle_file =
     \<lparr>file_Name = Some ''cycle.proto'', file_Package = ''demo'',
      file_MessageType =
        [DescriptorProto ''A''
           [\<lparr>fd_Name = ''b'', fd_Type = TYPE_MESSAGE, fd_TypeName = ''.demo.B'',
             fd_Label = Some LABEL_OPTIONAL\<rparr>]
           [] False,
         DescriptorProto ''B''
           [\<lparr>fd_Name = ''a'', fd_Type = TYPE_MESSAGE, fd_TypeName = ''.demo.A'',
             fd_Label = Some LABEL_OPTIONAL\<rparr>]
           [] False,
         DescriptorProto ''Ack'' [] [] False],
      file_Service =
        [\<lparr>sd_Name = ''Relay'',
          sd_Method = [\<lparr>md_Name = ''Send'', md_InputType = ''.demo.A'',
                        md_OutputType = ''.demo.Ack''\<rparr>]\<rparr>],
      file_Dependency = []\<rparr>"

definition cycle_ctx :: APIContext where
  "cycle_ctx =
     \<lparr>Models =
        [\<lparr>m_Name = ''A'', Primitive = False,
          Fields = [ModelField ''b'' ''B'' ''B'' ''b'' ''BJSON'' True False False None None],
          CanMarshal = True, CanUnmarshal = False\<rparr>,
         \<lparr>m_Name = ''B'', Primitive = False,
          Fields = [ModelField ''a'' ''A'' ''A'' ''a'' ''AJSON'' True False False None None],
          CanMarshal = False, CanUnmarshal = False\<rparr>,
         \<lparr>m_Name = ''Ack'', Primitive = False, Fields = [],
          CanMarshal = False, CanUnmarshal = True\<rparr>,
         Date_model],
      Services =
        [\<lparr>s_Name = ''Relay'', Package = ''demo'',
          Methods = [\<lparr>sm_Name = ''send'', sm_Path = ''Send'', InputArg = ''a'',
                      InputType = ''A'', OutputType = ''Ack''\<rparr>]\<rparr>],
      Imports =
        [Import ''dart:async'', Import ''package:http/http.dart'',
         Import ''dart:convert'', Import ''cycle.pb.dart''],
      modelLookup = [''A'' \<mapsto> 0, ''B'' \<mapsto> 1, ''Ack'' \<mapsto> 2, ''Date'' \<mapsto> 3]\<rparr>"

text \<open>
  Two models of a context that reference each other: the model at \<open>pa\<close> has the one field
  \<open>fb\<close>, a message field whose type is looked up to \<open>pb\<close>, and the model at \<open>pb\<close> has the
  one field \<open>fa\<close>, a message field whose type is looked up to \<open>pa\<close>.
\<close>

definition two_cycle :: "APIContext \<Rightarrow> nat \<Rightarrow> nat \<Rightarrow> ModelField \<Rightarrow> ModelField \<Rightarrow> bool" where
  "two_cycle ctx pa pb fa fb =
     (pa < length (Models ctx) \<and> pb < length (Models ctx) \<and>
      Fields (Models ctx ! pa) = [fb] \<and> Fields (Models ctx ! pb) = [fa] \<and>
      IsMessage fa \<and> f_Type fa \<noteq> ''DateTime'' \<and> modelLookup ctx (f_Type fa) = Some pa \<and>
      IsMessage fb \<and> f_Type fb \<noteq> ''DateTime'' \<and> modelLookup ctx (f_Type fb) = Some pb)"

text \<open>
  The schema \<open>message Order { message Line { string sku = 1; } Line line = 1; }\<close>,
  \<open>message Ack {}\<close>, \<open>service Orders { rpc Place(input) returns (output); }\<close>. The nested
  message \<open>Line\<close> is not among the message types of the file.
\<close>

definition order_file :: "string \<Rightarrow> string \<Rightarrow> FileDescriptorProto" where
  "order_file input output =
     \<lparr>file_Name = Some ''order.proto'', file_Package = ''shop'',
      file_MessageType =
        [DescriptorProto ''Order''
           [\<lparr>fd_Name = ''line'', fd_Type = TYPE_MESSAGE, fd_TypeName = ''.shop.Order.Line'',
             fd_Label = Some LABEL_OPTIONAL\<rparr>]
           [DescriptorProto ''Line''
              [\<lparr>fd_Name = ''sku'', fd_Type = TYPE_STRING, fd_TypeName = [],
                fd_Label = Some LABEL_OPTIONAL\<rparr>]
              [] False]
           False,
         DescriptorProto ''Ack'' [] [] False],
      file_Service =
        [\<lparr>sd_Name = ''Orders'',
          sd_Method = [\<lparr>md_Name = ''Place'', md_InputType = input,
                        md_OutputType = output\<rparr>]\<rparr>],
      file_Dependency = []\<rparr>"

text \<open>
  The schema \<open>message Item { string id = 1; repeated Item children = 2; }\<close>,
  \<open>service Catalog { rpc GetItem(Item) returns (Item); }\<close>.
\<close>

definition item_tree_file :: FileDescriptorProto where
  "item_tree_file =
     \<lparr>file_Name = Some ''catalog.proto'', file_Package = ''shop'',
      file_MessageType =
        [DescriptorProto ''Item''
           [\<lparr>fd_Name = ''id'', fd_Type = TYPE_STRING, fd_TypeName = [],
             fd_Label = Some LABEL_OPTIONAL\<rparr>,
            \<lparr>fd_Name = ''children'', fd_Type = TYPE_MESSAGE, fd_TypeName = ''.shop.Item'',
             fd_Label = Some LABEL_REPEATED\<rparr>]
           [] False],
      file_Service =
        [\<lparr>sd_Name = ''Catalog'',
          sd_Method = [\<lparr>md_Name = ''GetItem'', md_InputType = ''.shop.Item'',
                        md_OutputType = ''.shop.Item''\<rparr>]\<rparr>],
      file_Dependency = []\<rparr>"

text \<open>
  The schema \<open>message Query { string q = 1; }\<close>,
  \<open>message Event { repeated google.protobuf.Timestamp times = 1; }\<close>,
  \<open>service Log { rpc Last(Query) returns (Event); }\<close>.
\<close>

definition event_file :: FileDescriptorProto where
  "event_file =
     \<lparr>file_Name = Some ''log.proto'', file_Package = ''audit'',
      file_MessageType =
        [DescriptorProto ''Query''
           [\<lparr>fd_Name = ''q'', fd_Type = TYPE_STRING, fd_TypeName = [],
             fd_Label = Some LABEL_OPTIONAL\<rparr>]
           [] False,
         DescriptorProto ''Event''
           [\<lparr>fd_Name = ''times'', fd_Type = TYPE_MESSAGE,
             fd_TypeName = ''.google.protobuf.Timestamp'',
             fd_Label = Some LABEL_REPEATED\<rparr>]
           [] False],
      file_Service =
        [\<lparr>sd_Name = ''Log'',
          sd_Method = [\<lparr>md_Name = ''Last'', md_InputType = ''.audit.Query'',
                        md_OutputType = ''.audit.Event''\<rparr>]\<rparr>],
      file_Dependency = [''google/protobuf/timestamp.proto'']\<rparr>"

section \<open>Type Mapper: the integer kinds\<close>

text \<open>
  C6 (amended). For every field descriptor whose kind is fixed32, fixed64, int32 or
  int64, \<open>protoToDartType\<close> gives the element type \<open>int\<close>, with the target type \<open>int\<close> and
  the JSON type \<open>number\<close> when the field is not repeated, and \<open>List<int>\<close> and \<open>number[]\<close>
  when it is. The switch has no case for the other integer kinds.
\<close>

theorem protoToDartType_integer_kinds:
  "fd_Type f \<in> {TYPE_FIXED32, TYPE_FIXED64, TYPE_INT32, TYPE_INT64} \<Longrightarrow>
   protoToDartType f =
     (if isRepeated f then (''List<int>'', ''int'', ''number[]'')
      else (''int'', ''int'', ''number''))"
  by (auto simp: protoToDartType_def)

theorem protoToDartType_integer_kinds_witness:
  "protoToDartType repeated_int32_field = (''List<int>'', ''int'', ''number[]'')"
  using protoToDartType_integer_kinds [of repeated_int32_field]
  by (simp add: repeated_int32_field_def isRepeated_def)

text \<open>
  C6 as stated fails: a uint32 field falls to the defaults and is mapped to \<open>String\<close>,
  and a repeated int32 field has the wrapped target type.
\<close>

theorem protoToDartType_integer_counterexample:
  "protoToDartType uint32_field = (''String'', ''String'', ''string'') \<and>
   protoToDartType repeated_int32_field = (''List<int>'', ''int'', ''number[]'')"
  by (simp add: protoToDartType_def uint32_field_def repeated_int32_field_def isRepeated_def)

section \<open>Field Resolver: the target name\<close>

lemma Join_empty_sep: "Join xs [] = concat xs"
  by (induction xs "[] :: string" rule: Join.induct) simp_all

lemma camelCase_range_later:
  "[] \<notin> set ps \<Longrightarrow> length pre = Suc n \<Longrightarrow>
   camelCase_range (Suc n) ps (pre @ ps) =
     Inr (pre @ map (\<lambda>p. ToUpper (take 1 p) @ ToLower (drop 1 p)) ps)"
proof (induction ps arbitrary: pre n)
  case Nil
  then show ?case by simp
next
  case (Cons p ps)
  let ?cap = "\<lambda>p. ToUpper (take 1 p) @ ToLower (drop 1 p)"
  have upd: "(pre @ p # ps)[Suc n := ?cap p] = (pre @ [?cap p]) @ ps"
    using Cons.prems(2) by (simp add: list_update_append)
  have "camelCase_range (Suc (Suc n)) ps ((pre @ [?cap p]) @ ps) =
          Inr ((pre @ [?cap p]) @ map ?cap ps)"
    using Cons.prems by (intro Cons.IH) auto
  with upd Cons.prems(1) show ?case by auto
qed

text \<open>
  C8 (amended). For every wire field name whose segments after the first are not empty,
  \<open>camelCase\<close> splits the name on the underscore, keeps the first segment as it is,
  upper-cases the first character and lower-cases the rest of each remaining segment,
  and concatenates the segments.
\<close>

theorem camelCase_segments:
  assumes "Split s CHR ''_'' = first # rest" and "[] \<notin> set rest"
  shows "camelCase s =
           Inr (concat (first # map (\<lambda>p. ToUpper (take 1 p) @ ToLower (drop 1 p)) rest))"
proof -
  have "camelCase_range 0 (first # rest) (first # rest) =
          camelCase_range (Suc 0) rest ([first] @ rest)"
    by simp
  also have "\<dots> = Inr ([first] @ map (\<lambda>p. ToUpper (take 1 p) @ ToLower (drop 1 p)) rest)"
    using assms(2) by (intro camelCase_range_later) auto
  finally show ?thesis
    using assms(1) by (simp add: camelCase_def Join_empty_sep)
qed

theorem camelCase_segments_witness:
  "camelCase ''user_iD_x'' = Inr ''userIdX''"
proof -
  have s: "Split ''user_iD_x'' CHR ''_'' = [''user'', ''iD'', ''x'']" by simp
  have n: "[] \<notin> set [''iD'', ''x'']" by simp
  show ?thesis
    using camelCase_segments [OF s n]
    by (simp add: ToUpper_def ToLower_def upper_char_def lower_char_def
        upper_letters_def lower_letters_def)
qed

text \<open>A name that ends in an underscore has an empty last segment, and \<open>p[0:1]\<close> panics.\<close>

lemma camelCase_trailing_underscore: "camelCase ''foo_'' = Inl OutOfRange"
  by (simp add: camelCase_def)

text \<open>
  C8 as stated fails: the code leaves the first segment \<open>User\<close> as it is where the
  specification lower-cases it, and it lower-cases the rest of the segment \<open>iD\<close> where
  the specification only upper-cases its initial.
\<close>

theorem camelCase_first_segment_counterexample:
  "camelCase ''User_iD'' = Inr ''UserId'' \<and> camelCase_spec ''User_iD'' = ''userID''"
  by (simp add: camelCase_def camelCase_spec_def ToUpper_def ToLower_def upper_char_def
      lower_char_def upper_letters_def lower_letters_def)

section \<open>Field Resolver: map fields\<close>

lemma newField_nested_map_shape:
  "newField_nested f ms field0 = Inr field \<Longrightarrow> IsMap field \<Longrightarrow>
   IsMap field0 \<longrightarrow> map_shape field0 \<Longrightarrow> map_shape field"
proof (induction ms arbitrary: field0)
  case Nil
  then show ?case by simp
next
  case (Cons nested rest)
  show ?case
  proof (cases "HasSuffix (fd_TypeName f) (dp_Name nested)")
    case False
    with Cons.prems have "newField_nested f rest field0 = Inr field" by simp
    from Cons.IH [OF this Cons.prems(2,3)] show ?thesis .
  next
    case True
    with Cons.prems(1) obtain field1 where
      step: "newField_nested f rest field1 = Inr field" and
      inv: "IsMap field1 \<longrightarrow> map_shape field1"
      using Cons.prems(3)
      by (auto simp: map_shape_def split: sum.splits option.splits prod.splits)
    from Cons.IH [OF step Cons.prems(2) inv] show ?thesis .
  qed
qed

lemma newField_tags: "newField tags_field item_message = Inr tags_model_field"
  by code_simp

text \<open>
  C7 (amended). For every Field that \<open>newField\<close> produces with \<open>IsMap\<close> set, the key and
  value sub-fields are present, the target type is the string \<open>Map<K,V>\<close> built from the
  target types of the two, and \<open>IsRepeated\<close> is set exactly when the label of the field
  descriptor is \<open>LABEL_REPEATED\<close>.
\<close>

theorem newField_map_field:
  assumes "newField f m = Inr field" and "IsMap field"
  shows "(\<exists>k v. MapKeyField field = Some k \<and> MapValueField field = Some v \<and>
            f_Type field = ''Map<'' @ f_Type k @ '','' @ f_Type v @ ''>'') \<and>
         IsRepeated field = isRepeated f"
proof -
  from assms(1) obtain field1 field0 where
    nested: "newField_nested f (dp_NestedType m) field0 = Inr field1" and
    start: "\<not> IsMap field0" and
    fin: "field = ModelField (f_Name field1) (f_Type field1) (InternalType field1)
                    (JSONName field1) (JSONType field1) (fd_Type f = TYPE_MESSAGE)
                    (isRepeated f) (IsMap field1) (MapKeyField field1)
                    (MapValueField field1)"
    by (auto simp: Let_def split: sum.splits prod.splits)
  from fin assms(2) have "IsMap field1" by simp
  with nested start have "map_shape field1"
    by (intro newField_nested_map_shape [of f "dp_NestedType m" field0 field1]) auto
  with fin show ?thesis
    by (auto simp: map_shape_def split: option.splits)
qed

theorem newField_map_field_witness:
  "newField tags_field item_message = Inr tags_model_field \<and>
   IsMap tags_model_field \<and>
   (\<exists>k v. MapKeyField tags_model_field = Some k \<and> MapValueField tags_model_field = Some v \<and>
      f_Type tags_model_field = ''Map<'' @ f_Type k @ '','' @ f_Type v @ ''>'') \<and>
   IsRepeated tags_model_field = isRepeated tags_field"
proof -
  have e: "newField tags_field item_message = Inr tags_model_field"
    by (rule newField_tags)
  have m: "IsMap tags_model_field"
    by (simp add: tags_model_field_def)
  from newField_map_field [OF e m] e m show ?thesis by simp
qed

text \<open>
  C7 as stated fails: protoc gives a map field the label \<open>LABEL_REPEATED\<close>, and the
  Field built from it has \<open>IsMap\<close> and \<open>IsRepeated\<close> both set.
\<close>

theorem newField_map_repeated_counterexample:
  "newField tags_field item_message = Inr tags_model_field \<and>
   IsMap tags_model_field \<and> IsRepeated tags_model_field"
  using newField_tags by (simp add: tags_model_field_def)

section \<open>Import Resolver: relative paths and the order of the list\<close>

lemma Split_no_sep: "sep \<notin> set s \<Longrightarrow> Split s sep = [s]"
  by (induction s) auto

lemma path_Join_rooted_c:
  assumes "plain_name n"
  shows "path_Join ''/c'' n = ''/c/'' @ n"
  using assms by (simp add: path_Join_def path_Clean_def plain_name_def Split_no_sep)

lemma path_Join_up_c:
  assumes "plain_name n"
  shows "path_Join ''..'' (CHR ''/'' # CHR ''c'' # CHR ''/'' # n) = ''../c/'' @ n"
  using assms by (simp add: path_Join_def path_Clean_def plain_name_def Split_no_sep)

lemma path_Dir_example:
  "path_Dir ''a/c/dep.proto'' = ''a/c''" "path_Dir ''a/b/file.proto'' = ''a/b''"
  by (simp_all add: path_Dir_def path_Clean_def)

text \<open>
  C9. For the schema file \<open>a/b/file.proto\<close> with the dependency \<open>a/c/dep.proto\<close>,
  \<open>ApplyImports\<close> succeeds and the import of the dependency is \<open>../c/\<close> followed by the
  dependency's binding file name (what \<open>dartFilename\<close> gives, a name of one path
  element): of the two components \<open>a\<close> and \<open>b\<close> of the file's directory the shared \<open>a\<close> is
  trimmed from the dependency's directory \<open>a/c\<close>, which leaves \<open>/c\<close> and the distance 1,
  and one \<open>..\<close> is prefixed for the unmatched \<open>b\<close>.
\<close>

theorem ApplyImports_sibling_directory:
  assumes "file_Name d = Some ''a/b/file.proto''"
    and "file_Dependency d = [''a/c/dep.proto'']"
    and "plain_name (dartFilename ''a/c/dep.proto'')"
  shows "(\<exists>ctx'. ApplyImports dartFilename ctx d = Inr ctx' \<and>
            last (Imports ctx') = Import (''../c/'' @ dartFilename ''a/c/dep.proto'')) \<and>
         ApplyImports_trim (path_Dir ''a/c/dep.proto'') 2
            (Split (path_Dir ''a/b/file.proto'') PathSeparator) = (''/c'', 1)"
  using assms
  by (simp add: ApplyImports_def path_Dir_example PathSeparator_def HasPrefix_def
      TrimPrefix_def path_Join_rooted_c path_Join_up_c Let_def)

theorem ApplyImports_sibling_directory_witness:
  "\<exists>ctx'. ApplyImports (\<lambda>dep. ''dep.pb.dart'') NewAPIContext sibling_file = Inr ctx' \<and>
     last (Imports ctx') = Import ''../c/dep.pb.dart''"
proof -
  have n: "file_Name sibling_file = Some ''a/b/file.proto''"
    by (simp add: sibling_file_def)
  have d: "file_Dependency sibling_file = [''a/c/dep.proto'']"
    by (simp add: sibling_file_def)
  have p: "plain_name ((\<lambda>dep. ''dep.pb.dart'') ''a/c/dep.proto'')"
    by (simp add: plain_name_def)
  from ApplyImports_sibling_directory [OF n d p, of NewAPIContext] show ?thesis by simp
qed

lemma ApplyImports_deps_extends:
  "file_Name d = Some name \<Longrightarrow>
   \<exists>rest. ApplyImports_deps dartFilename d ds deps = Inr (deps @ rest)"
proof (induction ds arbitrary: deps)
  case Nil
  then show ?case by simp
next
  case (Cons dep ds)
  show ?case
  proof (cases "dep = ''google/protobuf/timestamp.proto''")
    case True
    with Cons show ?thesis by simp
  next
    case False
    let ?parts = "Split (path_Dir name) PathSeparator"
    obtain ip dist where
      trim: "ApplyImports_trim (path_Dir dep) (int (length ?parts)) ?parts = (ip, dist)"
      by fastforce
    define i where
      "i = Import (if 0 < dist
                   then ApplyImports_up (nat dist) (path_Join ip (dartFilename dep))
                   else path_Join ip (dartFilename dep))"
    have step: "ApplyImports_deps dartFilename d (dep # ds) deps =
        ApplyImports_deps dartFilename d ds (deps @ [i])"
      using False Cons.prems trim by (simp add: Let_def i_def)
    from Cons.IH [OF Cons.prems, of "deps @ [i]"] obtain rest where
      "ApplyImports_deps dartFilename d ds (deps @ [i]) = Inr ((deps @ [i]) @ rest)" ..
    with step show ?thesis by simp
  qed
qed

text \<open>
  With the name set, \<open>ApplyImports\<close> succeeds, and the list begins with the transport
  imports when there is a service, \<open>dart:convert\<close>, and the own binding import.
\<close>

lemma ApplyImports_prefix:
  assumes "file_Name d = Some name"
  shows "\<exists>rest. ApplyImports dartFilename ctx d =
           Inr (ctx\<lparr>Imports :=
                  (if Services ctx \<noteq> []
                   then [Import ''dart:async'', Import ''package:http/http.dart'']
                   else []) @
                  [Import ''dart:convert'',
                   Import (Replace name ''.proto'' [] @ ''.pb.dart'')] @ rest\<rparr>)"
proof -
  let ?start = "(if Services ctx \<noteq> []
                   then [Import ''dart:async'', Import ''package:http/http.dart'']
                   else []) @
                  [Import ''dart:convert'',
                   Import (Replace name ''.proto'' [] @ ''.pb.dart'')]"
  from ApplyImports_deps_extends [OF assms, of dartFilename "file_Dependency d" ?start]
  obtain rest where
    "ApplyImports_deps dartFilename d (file_Dependency d) ?start = Inr (?start @ rest)" ..
  then have "ApplyImports dartFilename ctx d = Inr (ctx\<lparr>Imports := ?start @ rest\<rparr>)"
    using assms by (cases "Services ctx = []") (simp_all add: ApplyImports_def GetName_def)
  then show ?thesis by (intro exI [of _ rest]) simp
qed

text \<open>
  Where \<open>.proto\<close> occurs in the file name as its extension only, removing every
  occurrence strips the extension.
\<close>

lemma HasPrefix_decomp: "HasPrefix s p \<Longrightarrow> s = p @ drop (length p) s"
  unfolding HasPrefix_def by (metis append_take_drop_id)

lemma replace_all_extension:
  "\<forall>pre post. base @ ''.proto'' = pre @ ''.proto'' @ post \<longrightarrow> post = [] \<Longrightarrow>
   replace_all (base @ ''.proto'') ''.proto'' [] = base"
proof (induction base)
  case Nil
  then show ?case by (simp add: HasPrefix_def)
next
  case (Cons c base)
  have "\<not> HasPrefix ((c # base) @ ''.proto'') ''.proto''"
  proof
    assume h: "HasPrefix ((c # base) @ ''.proto'') ''.proto''"
    from HasPrefix_decomp [OF h]
    have "(c # base) @ ''.proto'' =
            [] @ ''.proto'' @ drop (length ''.proto'') ((c # base) @ ''.proto'')"
      by simp
    with Cons.prems have "drop (length ''.proto'') ((c # base) @ ''.proto'') = []"
      by blast
    then show False by simp arith
  qed
  moreover have "\<forall>pre post. base @ ''.proto'' = pre @ ''.proto'' @ post \<longrightarrow> post = []"
  proof (intro allI impI)
    fix pre post assume "base @ ''.proto'' = pre @ ''.proto'' @ post"
    then have "(c # base) @ ''.proto'' = (c # pre) @ ''.proto'' @ post" by simp
    with Cons.prems show "post = []" by blast
  qed
  ultimately show ?case using Cons.IH by simp
qed

lemma Replace_extension:
  "\<forall>pre post. base @ ''.proto'' = pre @ ''.proto'' @ post \<longrightarrow> post = [] \<Longrightarrow>
   Replace (base @ ''.proto'') ''.proto'' [] @ ''.pb.dart'' = base @ ''.pb.dart''"
  by (simp add: Replace_def replace_all_extension)

text \<open>A name without a dot before its extension is such a name.\<close>

lemma extension_only_no_dot:
  assumes "CHR ''.'' \<notin> set base"
  shows "\<forall>pre post. base @ ''.proto'' = pre @ ''.proto'' @ post \<longrightarrow> post = []"
proof (intro allI impI)
  fix pre post
  assume eq: "base @ ''.proto'' = pre @ ''.proto'' @ post"
  then have "length (base @ ''.proto'') = length (pre @ ''.proto'' @ post)"
    by (rule arg_cong)
  then have len: "length base = length pre + length post"
    by simp
  have "(pre @ ''.proto'' @ post) ! length pre = CHR ''.''"
    by (simp add: nth_append)
  with eq have dot: "(base @ ''.proto'') ! length pre = CHR ''.''"
    by simp
  show "post = []"
  proof (rule ccontr)
    assume "post \<noteq> []"
    with len have "length pre < length base" by simp
    with dot have "base ! length pre = CHR ''.''" by (simp add: nth_append)
    moreover have "base ! length pre \<in> set base"
      using \<open>length pre < length base\<close> by (rule nth_mem)
    ultimately show False using assms by simp
  qed
qed

text \<open>
  C10 (amended). For every schema file whose name is \<open>base.proto\<close> with \<open>.proto\<close>
  occurring nowhere else in it, \<open>ApplyImports\<close> succeeds and the Import list begins,
  when the context has at least one service, with the two transport and async-support
  imports \<open>dart:async\<close> and \<open>package:http/http.dart\<close>, then the encoding-support import
  \<open>dart:convert\<close>, then the file's own binding import \<open>base.pb.dart\<close>, in that order;
  without a service the two transport imports are absent and the list begins with
  \<open>dart:convert\<close> and the own binding import.
\<close>

theorem ApplyImports_order:
  assumes "file_Name d = Some (base @ ''.proto'')"
    and "\<forall>pre post. base @ ''.proto'' = pre @ ''.proto'' @ post \<longrightarrow> post = []"
  shows "\<exists>rest. ApplyImports dartFilename ctx d =
           Inr (ctx\<lparr>Imports :=
                  (if Services ctx \<noteq> []
                   then [Import ''dart:async'', Import ''package:http/http.dart'']
                   else []) @
                  [Import ''dart:convert'', Import (base @ ''.pb.dart'')] @ rest\<rparr>)"
  using ApplyImports_prefix [OF assms(1), of dartFilename ctx] Replace_extension [OF assms(2)]
  by simp

theorem ApplyImports_order_witness:
  "\<exists>rest. ApplyImports (\<lambda>dep. dep) service_ctx shop_file =
     Inr (service_ctx\<lparr>Imports :=
            [Import ''dart:async'', Import ''package:http/http.dart'',
             Import ''dart:convert'', Import ''shop/svc.pb.dart''] @ rest\<rparr>)"
proof -
  have n: "file_Name shop_file = Some (''shop/svc'' @ ''.proto'')"
    by (simp add: shop_file_def)
  have x: "\<forall>pre post. ''shop/svc'' @ ''.proto'' = pre @ ''.proto'' @ post \<longrightarrow> post = []"
    by (rule extension_only_no_dot) simp
  from ApplyImports_order [OF n x, of "\<lambda>dep. dep" service_ctx] show ?thesis
    by (simp add: service_ctx_def)
qed

text \<open>
  C10 as stated fails: for the schema file \<open>my.protos/svc.proto\<close> with a service the list
  has four entries, the two transport imports, the encoding import and
  \<open>mys/svc.pb.dart\<close>, and the last is not the file name with its extension stripped
  (\<open>my.protos/svc\<close>) plus the suffix.
\<close>

theorem ApplyImports_own_binding_counterexample:
  "(case ApplyImports (\<lambda>dep. dep) service_ctx dotted_file of
      Inl e \<Rightarrow> []
    | Inr ctx' \<Rightarrow> Imports ctx') =
   [Import ''dart:async'', Import ''package:http/http.dart'', Import ''dart:convert'',
    Import ''mys/svc.pb.dart'']"
  by (simp add: ApplyImports_def service_ctx_def dotted_file_def GetName_def Replace_def
      HasPrefix_def NewAPIContext_def)

section \<open>Context Aggregator: the flags of the RPC surface\<close>

lemma CreateClientAPI_messages_Models:
  "CreateClientAPI_messages ms ctx = Inr ctx' \<Longrightarrow>
   Services ctx' = Services ctx \<and>
   (\<exists>new. Models ctx' = Models ctx @ new \<and> map m_Name new = map dp_Name ms \<and>
      (\<forall>m\<in>set new. \<not> CanMarshal m \<and> \<not> CanUnmarshal m))"
proof (induction ms arbitrary: ctx)
  case Nil
  then show ?case by simp
next
  case (Cons m ms)
  from Cons.prems obtain flds where
    step: "CreateClientAPI_messages ms
             (AddModel ctx \<lparr>m_Name = dp_Name m, Primitive = False, Fields = flds,
                             CanMarshal = False, CanUnmarshal = False\<rparr>) = Inr ctx'"
    by (auto split: sum.splits)
  let ?model = "\<lparr>m_Name = dp_Name m, Primitive = False, Fields = flds,
                  CanMarshal = False, CanUnmarshal = False\<rparr>"
  from Cons.IH [OF step] obtain new where
    s: "Services ctx' = Services (AddModel ctx ?model)" and
    n: "Models ctx' = Models (AddModel ctx ?model) @ new"
       "map m_Name new = map dp_Name ms"
       "\<forall>m\<in>set new. \<not> CanMarshal m \<and> \<not> CanUnmarshal m"
    by blast
  have "Models ctx' = Models ctx @ (?model # new)"
    using n(1) by (simp add: AddModel_def)
  moreover have "map m_Name (?model # new) = map dp_Name (m # ms)"
    using n(2) by simp
  moreover have "\<forall>m\<in>set (?model # new). \<not> CanMarshal m \<and> \<not> CanUnmarshal m"
    using n(3) by simp
  ultimately show ?case
    using s by (auto simp: AddModel_def)
qed

lemma CreateClientAPI_services_Models:
  "CreateClientAPI_services pkg ss ctx = Inr ctx' \<Longrightarrow> Models ctx' = Models ctx"
  by (induction ss arbitrary: ctx) (auto split: sum.splits)

lemma mark_methods_flags:
  "m_Name (mark_methods m sms) = m_Name m \<and>
   (CanMarshal (mark_methods m sms) \<longleftrightarrow>
      CanMarshal m \<or> (\<exists>sm\<in>set sms. InputType sm = m_Name m)) \<and>
   (CanUnmarshal (mark_methods m sms) \<longleftrightarrow>
      CanUnmarshal m \<or> (\<exists>sm\<in>set sms. OutputType sm = m_Name m))"
  by (induction sms arbitrary: m) (auto simp: Let_def)

lemma mark_services_flags:
  "m_Name (mark_services m ss) = m_Name m \<and>
   (CanMarshal (mark_services m ss) \<longleftrightarrow>
      CanMarshal m \<or> (\<exists>s\<in>set ss. \<exists>sm\<in>set (Methods s). InputType sm = m_Name m)) \<and>
   (CanUnmarshal (mark_services m ss) \<longleftrightarrow>
      CanUnmarshal m \<or> (\<exists>s\<in>set ss. \<exists>sm\<in>set (Methods s). OutputType sm = m_Name m))"
proof (induction ss arbitrary: m)
  case Nil
  then show ?case by simp
next
  case (Cons s ss)
  show ?case
    using Cons.IH [of "mark_methods m (Methods s)"] mark_methods_flags [of m "Methods s"]
    by auto
qed

lemma ApplyImports_frame:
  "ApplyImports dartFilename ctx d = Inr ctx' \<Longrightarrow>
   Models ctx' = Models ctx \<and> Services ctx' = Services ctx"
  by (auto simp: ApplyImports_def split: sum.splits)

text \<open>
  C2 (amended). In the context that \<open>CreateClientAPI\<close> builds, the Models are one per
  message of the schema file, in order and under the message's name, followed by the
  synthetic \<open>Date\<close> model. A Model built from a message has \<open>CanMarshal\<close> exactly when
  its name is the input type of some service method and \<open>CanUnmarshal\<close> exactly when its
  name is the output type of some service method; the \<open>Date\<close> model appended afterwards
  has both flags false. \<open>ApplyMarshalFlags\<close> is not called, so a Model referenced only
  through the fields of other Models has both flags false.
\<close>

theorem CreateClientAPI_flags:
  assumes "CreateClientAPI dartFilename d = Inr ctx"
  shows "\<exists>ms. Models ctx = ms @ [Date_model] \<and>
           map m_Name ms = map dp_Name (file_MessageType d) \<and>
           (\<forall>m\<in>set ms.
              (CanMarshal m \<longleftrightarrow>
                 (\<exists>s\<in>set (Services ctx). \<exists>sm\<in>set (Methods s). InputType sm = m_Name m)) \<and>
              (CanUnmarshal m \<longleftrightarrow>
                 (\<exists>s\<in>set (Services ctx). \<exists>sm\<in>set (Methods s). OutputType sm = m_Name m)))"
proof -
  from assms obtain ctx1 ctx2 where
    c1: "CreateClientAPI_messages (file_MessageType d) NewAPIContext = Inr ctx1" and
    c2: "CreateClientAPI_services (file_Package d) (file_Service d) ctx1 = Inr ctx2" and
    c3: "ApplyImports dartFilename (AddModel (mark_models ctx2) Date_model) d = Inr ctx"
    by (auto simp: CreateClientAPI_def Let_def Date_model_def split: sum.splits)
  from CreateClientAPI_messages_Models [OF c1] obtain new where
    new: "Models ctx1 = new" "map m_Name new = map dp_Name (file_MessageType d)"
         "\<forall>m\<in>set new. \<not> CanMarshal m \<and> \<not> CanUnmarshal m"
    by (auto simp: NewAPIContext_def)
  have m2: "Models ctx2 = new"
    using CreateClientAPI_services_Models [OF c2] new(1) by simp
  let ?ms = "map (\<lambda>m. mark_services m (Services ctx2)) new"
  from ApplyImports_frame [OF c3] have
    models: "Models ctx = ?ms @ [Date_model]" and
    services: "Services ctx = Services ctx2"
    using m2 by (simp_all add: AddModel_def mark_models_def)
  have "map m_Name ?ms = map dp_Name (file_MessageType d)"
    using new(2) mark_services_flags by (simp add: comp_def)
  moreover have "\<forall>m\<in>set ?ms.
      (CanMarshal m \<longleftrightarrow>
         (\<exists>s\<in>set (Services ctx). \<exists>sm\<in>set (Methods s). InputType sm = m_Name m)) \<and>
      (CanUnmarshal m \<longleftrightarrow>
         (\<exists>s\<in>set (Services ctx). \<exists>sm\<in>set (Methods s). OutputType sm = m_Name m))"
    using new(3) services mark_services_flags by auto
  ultimately show ?thesis
    using models by blast
qed

lemma CreateClientAPI_catalog_returns:
  "(case CreateClientAPI (\<lambda>dep. dep) catalog_file of Inl e \<Rightarrow> False | Inr ctx \<Rightarrow> True)"
  by code_simp

theorem CreateClientAPI_flags_witness:
  "\<exists>ctx ms. CreateClientAPI (\<lambda>dep. dep) catalog_file = Inr ctx \<and>
     Models ctx = ms @ [Date_model] \<and> map m_Name ms = [''Item'', ''Tag''] \<and>
     (\<forall>m\<in>set ms.
        (CanMarshal m \<longleftrightarrow>
           (\<exists>s\<in>set (Services ctx). \<exists>sm\<in>set (Methods s). InputType sm = m_Name m)) \<and>
        (CanUnmarshal m \<longleftrightarrow>
           (\<exists>s\<in>set (Services ctx). \<exists>sm\<in>set (Methods s). OutputType sm = m_Name m)))"
proof -
  from CreateClientAPI_catalog_returns obtain ctx where
    e: "CreateClientAPI (\<lambda>dep. dep) catalog_file = Inr ctx"
    by (cases "CreateClientAPI (\<lambda>dep. dep) catalog_file") auto
  have n: "map dp_Name (file_MessageType catalog_file) = [''Item'', ''Tag'']"
    by (simp add: catalog_file_def)
  from CreateClientAPI_flags [OF e] n e show ?thesis
    by auto
qed

text \<open>
  C2 as stated fails: for a schema with a message \<open>Date\<close> that is the input and output
  type of a method, the context holds two Models named \<open>Date\<close>; the second, the synthetic
  one, carries the name of a method's input and output type and has neither flag.
\<close>

theorem CreateClientAPI_Date_counterexample:
  "(case CreateClientAPI (\<lambda>dep. dep) clock_file of
      Inl e \<Rightarrow> False
    | Inr ctx \<Rightarrow>
        length (Models ctx) = 2 \<and>
        m_Name (Models ctx ! 1) = ''Date'' \<and>
        \<not> CanMarshal (Models ctx ! 1) \<and> \<not> CanUnmarshal (Models ctx ! 1) \<and>
        map InputType (concat (map Methods (Services ctx))) = [''Date''] \<and>
        map OutputType (concat (map Methods (Services ctx))) = [''Date''])"
  by code_simp

section \<open>Marshal closure: cycles, missing types, repeated fields\<close>

text \<open>The definitions that evaluating the generator on a schema unfolds.\<close>

lemmas generator_defs =
  CreateClientAPI_def Date_model_def NewAPIContext_def AddModel_def mark_models_def
  ApplyImports_def GetName_def Replace_def HasPrefix_def HasSuffix_def GetMapFields_def
  protoToDartType_def camelCase_def isRepeated_def removePkg_def ToLower_def
  lower_char_def upper_letters_def lower_letters_def ApplyMarshalFlags_def
  upt_conv_Cons could_not_find_def eval_nat_numeral Let_def

lemma two_cycle_mark:
  assumes "two_cycle ctx pa pb fa fb" and "p < length (Models ctx)"
  shows "two_cycle (ctx\<lparr>Models := (Models ctx)[p := (Models ctx ! p)\<lparr>CanMarshal := True\<rparr>]\<rparr>)
           pa pb fa fb"
  using assms by (auto simp: two_cycle_def nth_list_update)

text \<open>
  On two models that reference each other \<open>enableMarshal\<close> does not return, whatever
  depth the stack has room for.
\<close>

lemma two_cycle_overflow:
  "two_cycle ctx pa pb fa fb \<Longrightarrow>
   enableMarshal depth ctx (Some pa) = Inl StackOverflow \<and>
   enableMarshal depth ctx (Some pb) = Inl StackOverflow"
proof (induction depth arbitrary: ctx)
  case 0
  then show ?case by simp
next
  case (Suc depth)
  let ?mark = "\<lambda>p. ctx\<lparr>Models := (Models ctx)[p := (Models ctx ! p)\<lparr>CanMarshal := True\<rparr>]\<rparr>"
  from Suc.prems have pa: "pa < length (Models ctx)" and pb: "pb < length (Models ctx)"
    by (simp_all add: two_cycle_def)
  have ca: "two_cycle (?mark pa) pa pb fa fb" and cb: "two_cycle (?mark pb) pa pb fa fb"
    using Suc.prems pa pb by (simp_all add: two_cycle_mark)
  have "enableMarshal (Suc depth) ctx (Some pa) = Inl StackOverflow"
    using Suc.IH [OF ca] ca pa by (simp add: two_cycle_def Let_def)
  moreover have "enableMarshal (Suc depth) ctx (Some pb) = Inl StackOverflow"
    using Suc.IH [OF cb] cb pb by (simp add: two_cycle_def Let_def)
  ultimately show ?case by simp
qed

lemma CreateClientAPI_cycle:
  "CreateClientAPI dartFilename cycle_file = Inr cycle_ctx"
  by (simp add: cycle_file_def cycle_ctx_def generator_defs)

lemma two_cycle_cycle_ctx:
  "two_cycle cycle_ctx 0 1
     (ModelField ''a'' ''A'' ''A'' ''a'' ''AJSON'' True False False None None)
     (ModelField ''b'' ''B'' ''B'' ''b'' ''BJSON'' True False False None None)"
  by (simp add: two_cycle_def cycle_ctx_def)

text \<open>
  C1 (the code departs from it). For the schema in which \<open>A\<close> references \<open>B\<close>, \<open>B\<close>
  references \<open>A\<close> and \<open>A\<close> is an RPC input, \<open>ApplyMarshalFlags\<close> on the context that
  \<open>CreateClientAPI\<close> builds does not return: whatever depth the stack has room for, the
  recursion of \<open>enableMarshal\<close> exhausts it. There is no visited set and no test of the
  flag before the recursive call.
\<close>

theorem ApplyMarshalFlags_cycle_overflow:
  "(case CreateClientAPI dartFilename cycle_file of
      Inl e \<Rightarrow> Inl e
    | Inr ctx \<Rightarrow> ApplyMarshalFlags depth ctx) = Inl StackOverflow"
proof -
  have "enableMarshal depth cycle_ctx (Some 1) = Inl StackOverflow"
    using two_cycle_overflow [OF two_cycle_cycle_ctx] by simp
  moreover have "modelLookup cycle_ctx ''B'' = Some 1"
    "Fields (Models cycle_ctx ! 0) =
       [ModelField ''b'' ''B'' ''B'' ''b'' ''BJSON'' True False False None None]"
    "CanMarshal (Models cycle_ctx ! 0)" "length (Models cycle_ctx) = 4"
    by (simp_all add: cycle_ctx_def)
  ultimately have "ApplyMarshalFlags depth cycle_ctx = Inl StackOverflow"
    by (simp add: ApplyMarshalFlags_def upt_conv_Cons)
  then show ?thesis
    by (simp add: CreateClientAPI_cycle)
qed

text \<open>
  C3 (the code departs from it). \<open>Order\<close> is an RPC input and its field \<open>line\<close> has the
  type \<open>Line\<close>, which the lookup table does not hold. The encode branch of
  \<open>ApplyMarshalFlags\<close> passes the nil of the failed lookup to \<open>enableMarshal\<close>, which
  dereferences it: the run ends in a nil pointer panic, with no message that names the
  type and the field.
\<close>

theorem ApplyMarshalFlags_missing_encode:
  "(case CreateClientAPI dartFilename (order_file ''.shop.Order'' ''.shop.Ack'') of
      Inl e \<Rightarrow> Inl e
    | Inr ctx \<Rightarrow> ApplyMarshalFlags (Suc depth) ctx) = Inl NilDereference"
  by (simp add: order_file_def generator_defs)

text \<open>
  The decode branch tests the lookup: with \<open>Order\<close> as the RPC output the same schema ends
  in \<open>log.Fatalf\<close> with the message naming the type and the field.
\<close>

lemma ApplyMarshalFlags_missing_decode:
  "(case CreateClientAPI dartFilename (order_file ''.shop.Ack'' ''.shop.Order'') of
      Inl e \<Rightarrow> Inl e
    | Inr ctx \<Rightarrow> ApplyMarshalFlags depth ctx) =
   Inl (Fatal ''could not find model of type Line for field line'')"
  by (simp add: order_file_def generator_defs)

text \<open>
  C4 (the code departs from it). \<open>ApplyMarshalFlags\<close> unwraps the type \<open>List<Item>\<close> of the
  repeated field \<open>children\<close> to \<open>Item\<close> in its own pass, but \<open>enableMarshal\<close>, called on
  \<open>Item\<close>, looks the same field up under \<open>List<Item>\<close>: the recursive pass does not unwrap,
  and the run ends in \<open>log.Fatalf\<close> although \<open>Item\<close> is in the lookup table.
\<close>

theorem ApplyMarshalFlags_nested_list:
  "(case CreateClientAPI dartFilename item_tree_file of
      Inl e \<Rightarrow> Inl e
    | Inr ctx \<Rightarrow> ApplyMarshalFlags (Suc depth) ctx) =
   Inl (Fatal ''could not find model of type List<Item> for field children'')"
  by (simp add: item_tree_file_def generator_defs)

text \<open>
  The Type Mapper on a field of the timestamp type: the element type is \<open>DateTime\<close>, and
  a repeated field has the wrapped target type.
\<close>

lemma protoToDartType_Timestamp:
  "fd_Type f = TYPE_MESSAGE \<Longrightarrow> fd_TypeName f = ''.google.protobuf.Timestamp'' \<Longrightarrow>
   protoToDartType f =
     (if isRepeated f then (''List<DateTime>'', ''DateTime'', ''string[]'')
      else (''DateTime'', ''DateTime'', ''string''))"
  by (simp add: protoToDartType_def)

text \<open>
  C5 (the code departs from it). The closure skips a field whose type is \<open>DateTime\<close>; a
  repeated timestamp field has the type \<open>List<DateTime>\<close> and is not skipped.
  \<open>ApplyMarshalFlags\<close> unwraps it to \<open>DateTime\<close>, which no model is named, and with
  \<open>Event\<close> as an RPC output the run ends in the missing-type \<open>log.Fatalf\<close>.
\<close>

theorem ApplyMarshalFlags_repeated_timestamp:
  "(case CreateClientAPI dartFilename event_file of
      Inl e \<Rightarrow> Inl e
    | Inr ctx \<Rightarrow> ApplyMarshalFlags depth ctx) =
   Inl (Fatal ''could not find model of type DateTime for field times'')"
  by (simp add: event_file_def generator_defs)

end
